theory Spec2Isabelle
  imports Complex_Main "HOL-Library.Sublist"
begin

section \<open>Texts and the string primitives of the runtime\<close>

text \<open>
  The route handlers work on JavaScript strings, whose \<open>length\<close>, \<open>substring\<close> and
  regular expressions count UTF-16 code units. A text is modelled as a \<open>string\<close>, one
  \<open>char\<close> per code unit, which covers the code units \<open>0..255\<close> (ASCII and Latin-1).
  On these the character classes and the case mapping below are the ones of the runtime:
  \<open>\w\<close> is \<open>[A-Za-z0-9_]\<close>, \<open>\s\<close> and \<open>trim\<close> know TAB, LF, VT, FF, CR, SPACE and
  NBSP, and \<open>toLowerCase\<close> maps \<open>A-Z\<close>, \<open>U+00C0-U+00D6\<close> and \<open>U+00D8-U+00DE\<close> to the
  unit 32 above.

  Numbers of the source that are not integers (confidences, rates, the readability
  formula, the random draws) are modelled as exact rationals. The doubles of the runtime
  can differ from them in the last place, and so a value of \<open>Math.round\<close> can differ by
  one where the exact value lies at a tie; the examples below stay away from ties.
\<close>

definition code :: "char \<Rightarrow> int" where
  "code c = of_char c"

definition isWordChar :: "char \<Rightarrow> bool" where
  "isWordChar c = (let n = code c in
     (48 \<le> n \<and> n \<le> 57) \<or> (65 \<le> n \<and> n \<le> 90) \<or> n = 95 \<or> (97 \<le> n \<and> n \<le> 122))"

definition nonWord :: "char \<Rightarrow> bool" where
  "nonWord c = (\<not> isWordChar c)"

definition isSpace :: "char \<Rightarrow> bool" where
  "isSpace c = (code c \<in> {9, 10, 11, 12, 13, 32, 160})"

definition lowerChar :: "char \<Rightarrow> char" where
  "lowerChar c = (let n = code c in
     if (65 \<le> n \<and> n \<le> 90) \<or> (192 \<le> n \<and> n \<le> 214) \<or> (216 \<le> n \<and> n \<le> 222)
     then char_of (n + 32) else c)"

definition toLowerCase :: "string \<Rightarrow> string" where
  "toLowerCase s = map lowerChar s"

text \<open>
  \<open>s.split(re)\<close> for a regular expression \<open>re = [class]+\<close> that matches the non-empty
  maximal runs of a character class: the pieces between the runs, with an empty first
  piece when the text starts with a run, an empty last piece when it ends with one, and
  the single piece \<open>""\<close> for the empty text.
\<close>

function splitRuns :: "(char \<Rightarrow> bool) \<Rightarrow> string \<Rightarrow> string list" where
  "splitRuns sep [] = [[]]"
| "splitRuns sep (c # cs) =
     (if sep c then [] # splitRuns sep (dropWhile sep cs)
      else (case splitRuns sep cs of
              [] \<Rightarrow> [[c]]
            | w # ws \<Rightarrow> (c # w) # ws))"
  by pat_completeness auto
termination
  by (relation "measure (\<lambda>(sep, s). length s)")
     (auto simp: length_dropWhile_le less_Suc_eq_le)

text \<open>\<open>s.split(".")\<close> and \<open>s.split(" ")\<close>: a piece ends at every occurrence of the unit.\<close>

fun splitChar :: "char \<Rightarrow> string \<Rightarrow> string list" where
  "splitChar d [] = [[]]"
| "splitChar d (c # cs) =
     (if c = d then [] # splitChar d cs
      else (case splitChar d cs of
              [] \<Rightarrow> [[c]]
            | w # ws \<Rightarrow> (c # w) # ws))"

text \<open>\<open>s.includes(sub)\<close>: \<open>sub\<close> occurs in \<open>s\<close> as a contiguous piece.\<close>

fun includesStr :: "string \<Rightarrow> string \<Rightarrow> bool" where
  "includesStr [] sub = (sub = [])"
| "includesStr (c # cs) sub = (prefix sub (c # cs) \<or> includesStr cs sub)"

text \<open>\<open>s.trim()\<close> removes the white space at both ends.\<close>

definition trim :: "string \<Rightarrow> string" where
  "trim s = rev (dropWhile isSpace (rev (dropWhile isSpace s)))"

section \<open>Sentiment analysis\<close>

record sentiment =
  label :: string
  confidence :: rat

definition positiveWords :: "string list" where
  "positiveWords = [''good'', ''great'', ''excellent'', ''amazing'', ''wonderful'',
     ''fantastic'', ''love'', ''best'', ''awesome'', ''perfect'', ''happy'', ''excited'',
     ''thrilled'', ''delighted'']"

definition negativeWords :: "string list" where
  "negativeWords = [''bad'', ''terrible'', ''awful'', ''horrible'', ''hate'', ''worst'',
     ''disappointed'', ''frustrated'', ''angry'', ''sad'', ''difficult'', ''problem'',
     ''issue'', ''failed'']"

text \<open>The tokens of \<open>text.toLowerCase().split(/\W+/)\<close>.\<close>

definition tokens :: "string \<Rightarrow> string list" where
  "tokens text = splitRuns nonWord (toLowerCase text)"

text \<open>
  The \<open>forEach\<close> loop over the tokens, with its two counters as the state.
\<close>

definition countWord :: "string \<Rightarrow> nat \<times> nat \<Rightarrow> nat \<times> nat" where
  "countWord word pn =
     (let positiveCount = (if List.member positiveWords word then fst pn + 1 else fst pn);
          negativeCount = (if List.member negativeWords word then snd pn + 1 else snd pn)
      in (positiveCount, negativeCount))"

definition lexiconCounts :: "string \<Rightarrow> nat \<times> nat" where
  "lexiconCounts text = fold countWord (tokens text) (0, 0)"

definition analyzeSentiment :: "string \<Rightarrow> sentiment" where
  "analyzeSentiment text =
     (let (positiveCount, negativeCount) = lexiconCounts text;
          total = positiveCount + negativeCount
      in if total = 0 then \<lparr>label = ''neutral'', confidence = 5 / 10\<rparr>
         else if positiveCount > negativeCount then
           \<lparr>label = ''positive'',
            confidence = min (95 / 100) (6 / 10 + (of_nat positiveCount / of_nat total) * (4 / 10))\<rparr>
         else if negativeCount > positiveCount then
           \<lparr>label = ''negative'',
            confidence = min (95 / 100) (6 / 10 + (of_nat negativeCount / of_nat total) * (4 / 10))\<rparr>
         else \<lparr>label = ''neutral'', confidence = 7 / 10\<rparr>)"

section \<open>Readability\<close>

text \<open>\<open>Math.round\<close>: the nearest integer, a tie going up.\<close>

definition mathRound :: "rat \<Rightarrow> int" where
  "mathRound x = \<lfloor>x + 1 / 2\<rfloor>"

definition isTerminator :: "char \<Rightarrow> bool" where
  "isTerminator c = (c = CHR ''.'' \<or> c = CHR ''!'' \<or> c = CHR ''?'')"

definition isVowel :: "char \<Rightarrow> bool" where
  "isVowel c = List.member ''aeiouy'' c"

text \<open>The number of matches of \<open>/[aeiouy]+/g\<close>: the maximal runs of vowels.\<close>

function vowelRuns :: "string \<Rightarrow> nat" where
  "vowelRuns [] = 0"
| "vowelRuns (c # cs) =
     (if isVowel c then 1 + vowelRuns (dropWhile isVowel cs) else vowelRuns cs)"
  by pat_completeness auto
termination
  by (relation "measure length") (auto simp: length_dropWhile_le less_Suc_eq_le)

text \<open>
  \<open>Math.max(1, word.toLowerCase().match(/[aeiouy]+/g)?.length || 1)\<close>: \<open>match\<close> gives
  \<open>null\<close> when there is no run, and then the count is 1.
\<close>

definition syllablesOf :: "string \<Rightarrow> nat" where
  "syllablesOf word =
     max 1 (let m = vowelRuns (toLowerCase word) in if m = 0 then 1 else m)"

definition sentenceCount :: "string \<Rightarrow> nat" where
  "sentenceCount text =
     length (filter (\<lambda>s. length (trim s) > 0) (splitRuns isTerminator text))"

definition wordCount :: "string \<Rightarrow> nat" where
  "wordCount text = length (filter (\<lambda>w. length w > 0) (splitRuns isSpace text))"

definition syllableCount :: "string \<Rightarrow> nat" where
  "syllableCount text =
     fold (\<lambda>word count. count + syllablesOf word) (splitRuns isSpace text) 0"

definition calculateReadability :: "string \<Rightarrow> int" where
  "calculateReadability text =
     (let sentences = sentenceCount text;
          words = wordCount text;
          syllables = syllableCount text
      in if sentences = 0 \<or> words = 0 then 50
         else
           let avgSentenceLength = (of_nat words :: rat) / of_nat sentences;
               avgSyllablesPerWord = (of_nat syllables :: rat) / of_nat words;
               score = 206835 / 1000 - (1015 / 1000) * avgSentenceLength
                         - (846 / 10) * avgSyllablesPerWord
           in max 0 (min 100 (mathRound score)))"

section \<open>Hashtags\<close>

text \<open>
  The platform argument is a string in the source; the handlers pass one of three
  literals, the keys of the tag tables.
\<close>

datatype platform = Twitter | LinkedIn | Newsletter

text \<open>
  \<open>xs.slice(0, e)\<close>: a negative \<open>e\<close> counts from the end of the array.
\<close>

definition slice0 :: "'a list \<Rightarrow> int \<Rightarrow> 'a list" where
  "slice0 xs e =
     (if e < 0 then take (nat (max (int (length xs) + e) 0)) xs
      else take (nat (min e (int (length xs)))) xs)"

text \<open>The words of both hashtag functions: the tokens longer than 3 units.\<close>

definition longWords :: "string \<Rightarrow> string list" where
  "longWords content = filter (\<lambda>word. length word > 3) (tokens content)"

fun commonHashtags :: "platform \<Rightarrow> string list" where
  "commonHashtags Twitter =
     [''#tech'', ''#innovation'', ''#business'', ''#startup'', ''#ai'', ''#productivity'']"
| "commonHashtags LinkedIn =
     [''#professional'', ''#business'', ''#leadership'', ''#growth'', ''#innovation'',
      ''#networking'']"
| "commonHashtags Newsletter = []"

text \<open>The four conditional \<open>push\<close>es of \<open>extractHashtags\<close>, in their order.\<close>

definition keywordTags :: "string list \<Rightarrow> string list" where
  "keywordTags words =
     (let hashtags = [];
          hashtags = (if List.member words ''technology'' \<or> List.member words ''tech''
                      then hashtags @ [''#technology''] else hashtags);
          hashtags = (if List.member words ''business''
                      then hashtags @ [''#business''] else hashtags);
          hashtags = (if List.member words ''innovation''
                      then hashtags @ [''#innovation''] else hashtags);
          hashtags = (if List.member words ''ai'' \<or> List.member words ''artificial''
                      then hashtags @ [''#ai''] else hashtags)
      in hashtags)"

definition extractHashtags :: "string \<Rightarrow> platform \<Rightarrow> string list" where
  "extractHashtags content platform =
     (let words = longWords content;
          hashtags = keywordTags words;
          platformTags = commonHashtags platform;
          hashtags = hashtags @ slice0 platformTags (3 - int (length hashtags))
      in slice0 hashtags 5)"

fun trendingHashtags :: "platform \<Rightarrow> string list" where
  "trendingHashtags Twitter =
     [''#AI'', ''#Tech'', ''#Innovation'', ''#Startup'', ''#Growth'', ''#Digital'',
      ''#Future'', ''#Success'']"
| "trendingHashtags LinkedIn =
     [''#Leadership'', ''#Professional'', ''#Business'', ''#Career'', ''#Networking'',
      ''#Industry'', ''#Strategy'', ''#Growth'']"
| "trendingHashtags Newsletter = []"

text \<open>\<open>words.some((w) => list.includes(w))\<close>.\<close>

definition someIn :: "string list \<Rightarrow> string list \<Rightarrow> bool" where
  "someIn words list = list_ex (List.member list) words"

definition contentBasedTags :: "string list \<Rightarrow> string list" where
  "contentBasedTags words =
     (let tags = [];
          tags = (if someIn words [''ai'', ''artificial'', ''intelligence'', ''machine'', ''learning'']
                  then tags @ [''#AI'', ''#MachineLearning'', ''#Technology''] else tags);
          tags = (if someIn words [''business'', ''startup'', ''entrepreneur'', ''company'']
                  then tags @ [''#Business'', ''#Startup'', ''#Entrepreneur''] else tags);
          tags = (if someIn words [''marketing'', ''brand'', ''social'', ''content'']
                  then tags @ [''#Marketing'', ''#Branding'', ''#ContentMarketing''] else tags)
      in tags)"

text \<open>
  \<open>[...new Set(xs)]\<close>: a set keeps the first occurrence of every element, in the order
  of insertion.
\<close>

definition setInsert :: "'a \<Rightarrow> 'a list \<Rightarrow> 'a list" where
  "setInsert x acc = (if List.member acc x then acc else acc @ [x])"

definition newSet :: "'a list \<Rightarrow> 'a list" where
  "newSet xs = fold setInsert xs []"

definition generateOptimizedHashtags :: "string \<Rightarrow> platform \<Rightarrow> string list" where
  "generateOptimizedHashtags content platform =
     (let words = longWords content;
          platformTags = trendingHashtags platform;
          allTags = newSet (contentBasedTags words @ platformTags)
      in slice0 allTags 5)"

section \<open>Word patterns\<close>

text \<open>
  The regular expressions \<open>/\b(w1|w2|...)\b/i\<close> of the source: one of the alternatives,
  tried in their order, compared without regard to case, between two word boundaries.
  A boundary lies between a word unit and a unit that is none, or an end of the text.
  Without the \<open>u\<close> flag, units are compared through their upper-case forms. The
  upper-case forms of \<open>U+00B5\<close> and \<open>U+00FF\<close> lie beyond the units of the model and
  \<open>U+00DF\<close> has none of one unit; the three are left as they are, and like their
  upper-case forms they differ from every unit of the patterns.
\<close>

definition upperChar :: "char \<Rightarrow> char" where
  "upperChar c = (let n = code c in
     if (97 \<le> n \<and> n \<le> 122) \<or> (224 \<le> n \<and> n \<le> 246) \<or> (248 \<le> n \<and> n \<le> 254)
     then char_of (n - 32) else c)"

fun ciPrefix :: "string \<Rightarrow> string \<Rightarrow> bool" where
  "ciPrefix [] s = True"
| "ciPrefix (p # ps) [] = False"
| "ciPrefix (p # ps) (c # cs) = (upperChar p = upperChar c \<and> ciPrefix ps cs)"

definition isWordAt :: "char option \<Rightarrow> bool" where
  "isWordAt u = (case u of None \<Rightarrow> False | Some c \<Rightarrow> isWordChar c)"

definition wordBoundary :: "char option \<Rightarrow> char option \<Rightarrow> bool" where
  "wordBoundary prev nxt = (isWordAt prev \<noteq> isWordAt nxt)"

definition nextUnit :: "string \<Rightarrow> char option" where
  "nextUnit s = (case s of [] \<Rightarrow> None | c # cs \<Rightarrow> Some c)"

definition lastUnit :: "char option \<Rightarrow> string \<Rightarrow> char option" where
  "lastUnit prev m = (if m = [] then prev else Some (last m))"

text \<open>
  The alternatives and the closing boundary at the start of \<open>s\<close>, where \<open>prev\<close> is
  the unit in front of \<open>s\<close>: the length of the match.
\<close>

fun firstAlt :: "string list \<Rightarrow> char option \<Rightarrow> string \<Rightarrow> nat option" where
  "firstAlt [] prev s = None"
| "firstAlt (a # as) prev s =
     (if ciPrefix a s \<and>
         wordBoundary (lastUnit prev (take (length a) s)) (nextUnit (drop (length a) s))
      then Some (length a) else firstAlt as prev s)"

definition matchWordAt :: "string list \<Rightarrow> char option \<Rightarrow> string \<Rightarrow> nat option" where
  "matchWordAt alts prev s =
     (if wordBoundary prev (nextUnit s) then firstAlt alts prev s else None)"

text \<open>\<open>re.test(s)\<close>: a match at some position.\<close>

fun searchFrom :: "string list \<Rightarrow> char option \<Rightarrow> string \<Rightarrow> bool" where
  "searchFrom alts prev [] = (matchWordAt alts prev [] \<noteq> None)"
| "searchFrom alts prev (c # cs) =
     (matchWordAt alts prev (c # cs) \<noteq> None \<or> searchFrom alts (Some c) cs)"

definition testWords :: "string list \<Rightarrow> string \<Rightarrow> bool" where
  "testWords alts s = searchFrom alts None s"

text \<open>
  \<open>s.replace(re, repl)\<close> with the \<open>g\<close> flag: every match, from left to right, the search
  going on behind the match. The alternatives are not empty, so a match takes at least
  one unit.
\<close>

function replaceFrom :: "string list \<Rightarrow> string \<Rightarrow> char option \<Rightarrow> string \<Rightarrow> string" where
  "replaceFrom alts repl prev [] = []"
| "replaceFrom alts repl prev (c # cs) =
     (case matchWordAt alts prev (c # cs) of
        Some n \<Rightarrow>
          repl @ replaceFrom alts repl (Some (last (c # take (n - 1) cs))) (drop (n - 1) cs)
      | None \<Rightarrow> c # replaceFrom alts repl (Some c) cs)"
  by pat_completeness auto
termination
  by (relation "measure (\<lambda>(alts, repl, prev, s). length s)") auto

definition replaceWords :: "string list \<Rightarrow> string \<Rightarrow> string \<Rightarrow> string" where
  "replaceWords alts repl s = replaceFrom alts repl None s"

section \<open>Adapting the content to a platform\<close>

text \<open>\<open>s.replace(/!/g, ".")\<close>.\<close>

definition replaceBangs :: "string \<Rightarrow> string" where
  "replaceBangs s = map (\<lambda>c. if c = CHR ''!'' then CHR ''.'' else c) s"

text \<open>\<open>s.replace(/\.$/, "!")\<close>: \<open>$\<close> is the end of the text.\<close>

definition replaceFinalDot :: "string \<Rightarrow> string" where
  "replaceFinalDot s = (if s \<noteq> [] \<and> last s = CHR ''.'' then butlast s @ ''!'' else s)"

text \<open>
  The tone adjustments. \<open>if (tone)\<close> holds for a tone that is given and not empty.
\<close>

definition applyTone :: "string \<Rightarrow> string option \<Rightarrow> string" where
  "applyTone content tone =
     (case tone of
        None \<Rightarrow> content
      | Some t \<Rightarrow>
          if t = [] then content
          else if toLowerCase t = ''professional'' then
            replaceWords [''awesome'', ''amazing'', ''cool''] ''excellent'' (replaceBangs content)
          else if toLowerCase t = ''casual'' then
            replaceWords [''excellent'', ''outstanding''] ''awesome'' content
          else if toLowerCase t = ''enthusiastic'' then
            (if \<not> includesStr content ''!'' then replaceFinalDot content else content)
          else content)"

definition newline :: char where
  "newline = CHR 0x0A"

definition businessLead :: string where
  "businessLead = ''In today'' @ [CHR 0x27] @ ''s business landscape, ''"

definition experienceQuestion :: string where
  "experienceQuestion = [newline, newline] @
     ''What has been your experience with this? Share your thoughts in the comments.''"

definition adaptForPlatform ::
  "string \<Rightarrow> platform \<Rightarrow> string option \<Rightarrow> string option \<Rightarrow> string" where
  "adaptForPlatform content platform audience tone =
     (let adaptedContent = applyTone content tone
      in case platform of
           Twitter \<Rightarrow>
             (let adaptedContent =
                    (if length adaptedContent > 240 then take 240 adaptedContent @ ''...''
                     else adaptedContent);
                  adaptedContent =
                    (if length adaptedContent < 200 then adaptedContent @ '' What do you think?''
                     else adaptedContent)
              in adaptedContent)
         | LinkedIn \<Rightarrow>
             (let adaptedContent =
                    (if \<not> includesStr adaptedContent ''professional'' \<and>
                        \<not> includesStr adaptedContent ''business''
                     then businessLead @ toLowerCase adaptedContent
                     else adaptedContent)
              in adaptedContent @ experienceQuestion)
         | Newsletter \<Rightarrow>
             ''Dear Subscribers,'' @ [newline, newline] @ adaptedContent @ [newline, newline] @
             ''Thank you for reading, and we look forward to sharing more insights with you soon.'' @
             [newline, newline] @ ''Best regards,'' @ [newline] @ ''The Team'')"

section \<open>Engagement forecast\<close>

text \<open>
  The forecast reads the clock and draws random numbers. Both are given from outside: the
  hour and the day of the week of \<open>new Date()\<close>, the two readings of \<open>Date.now()\<close>, and
  the sequence of the results of \<open>Math.random()\<close>. A function that draws takes the number
  of draws made so far and returns it updated.
\<close>

record env =
  mathRandom :: "nat \<Rightarrow> rat"
  currentHour :: nat
  dayOfWeek :: nat
  startTime :: int
  endTime :: int

datatype forecast =
    TwitterForecast (predicted_likes: int) (predicted_retweets: int) (predicted_replies: int)
      (engagement_score: int) (optimal_posting_time: string)
  | LinkedinForecast (predicted_likes: int) (predicted_shares: int) (predicted_comments: int)
      (engagement_score: int) (optimal_posting_time: string)
  | NewsletterForecast (predicted_open_rate: rat) (predicted_click_rate: rat)
      (engagement_score: int) (optimal_send_time: string)

fun getOptimalPostingTime :: "env \<Rightarrow> platform \<Rightarrow> string" where
  "getOptimalPostingTime e Twitter =
     (if currentHour e < 9 then ''9:00 AM today''
      else if currentHour e < 13 then ''1:00 PM today''
      else if currentHour e < 17 then ''5:00 PM today''
      else ''9:00 AM tomorrow'')"
| "getOptimalPostingTime e LinkedIn =
     (if currentHour e < 8 then ''8:00 AM today''
      else if currentHour e < 12 then ''12:00 PM today''
      else if currentHour e < 17 then ''5:00 PM today''
      else ''8:00 AM tomorrow'')"
| "getOptimalPostingTime e Newsletter =
     (if dayOfWeek e \<ge> 2 \<and> dayOfWeek e \<le> 4 then
        (if currentHour e < 10 then ''10:00 AM today''
         else if currentHour e < 14 then ''2:00 PM today''
         else ''10:00 AM tomorrow'')
      else ''Tuesday 10:00 AM'')"

text \<open>
  The emoji test has the \<open>u\<close> flag and looks for a code point of four ranges. They lie
  beyond the units of this model, on whose texts the test fails.
\<close>

definition isEmoji :: "char \<Rightarrow> bool" where
  "isEmoji c = (let n = code c in
     (0x1F600 \<le> n \<and> n \<le> 0x1F64F) \<or> (0x1F300 \<le> n \<and> n \<le> 0x1F5FF) \<or>
     (0x1F680 \<le> n \<and> n \<le> 0x1F6FF) \<or> (0x1F1E0 \<le> n \<and> n \<le> 0x1F1FF))"

definition callToAction :: "string list" where
  "callToAction = [''share'', ''comment'', ''like'', ''follow'', ''subscribe'', ''click'',
     ''learn more'', ''read more'']"

text \<open>The score before the platform is looked at.\<close>

definition featureScore :: "string \<Rightarrow> sentiment \<Rightarrow> int" where
  "featureScore content sentiment =
     (let hasHashtags = includesStr content ''#'';
          hasEmojis = list_ex isEmoji content;
          hasQuestions = includesStr content ''?'';
          hasCallToAction = testWords callToAction content;
          baseScore = 50;
          baseScore = (if label sentiment = ''positive'' then baseScore + 15
                       else if label sentiment = ''negative'' then baseScore + 5
                       else baseScore);
          baseScore = (if hasHashtags then baseScore + 10 else baseScore);
          baseScore = (if hasEmojis then baseScore + 8 else baseScore);
          baseScore = (if hasQuestions then baseScore + 12 else baseScore);
          baseScore = (if hasCallToAction then baseScore + 15 else baseScore)
      in baseScore)"

fun predictEngagement ::
  "env \<Rightarrow> nat \<Rightarrow> string \<Rightarrow> platform \<Rightarrow> sentiment \<Rightarrow> forecast \<times> nat" where
  "predictEngagement e k content Twitter sentiment =
     (let contentLength = length content;
          baseScore = featureScore content sentiment;
          baseScore = (if contentLength \<ge> 71 \<and> contentLength \<le> 100 then baseScore + 10
                       else if contentLength > 280 then baseScore - 20
                       else baseScore)
      in (TwitterForecast
            (mathRound (of_int baseScore * (23 / 10) + mathRandom e k * 20))
            (mathRound (of_int baseScore * (8 / 10) + mathRandom e (k + 1) * 10))
            (mathRound (of_int baseScore * (5 / 10) + mathRandom e (k + 2) * 8))
            (min 100 baseScore)
            (getOptimalPostingTime e Twitter),
          k + 3))"
| "predictEngagement e k content LinkedIn sentiment =
     (let wordCount = length (splitRuns isSpace content);
          baseScore = featureScore content sentiment;
          baseScore = (if wordCount \<ge> 50 \<and> wordCount \<le> 200 then baseScore + 15
                       else baseScore);
          baseScore = (if includesStr content ''professional'' \<or> includesStr content ''business''
                       then baseScore + 10 else baseScore)
      in (LinkedinForecast
            (mathRound (of_int baseScore * (18 / 10) + mathRandom e k * 15))
            (mathRound (of_int baseScore * (6 / 10) + mathRandom e (k + 1) * 8))
            (mathRound (of_int baseScore * (9 / 10) + mathRandom e (k + 2) * 12))
            (min 100 baseScore)
            (getOptimalPostingTime e LinkedIn),
          k + 3))"
| "predictEngagement e k content Newsletter sentiment =
     (let baseScore = featureScore content sentiment;
          subjectScore = (if length (hd (splitChar (CHR ''.'') content)) \<le> 50 then 10 else - 5);
          baseScore = baseScore + subjectScore
      in (NewsletterForecast
            (min 45 (max 15 (of_int baseScore * (6 / 10))))
            (min 15 (max 2 (of_int baseScore * (2 / 10))))
            (min 100 baseScore)
            (getOptimalPostingTime e Newsletter),
          k))"

section \<open>Suggestions and optimised variants\<close>

record suggestions =
  hashtag_recommendations :: "string list"
  keyword_suggestions :: "string list"
  tone_adjustments :: "string list"
  timing_recommendations :: "string list"

definition powerWords :: "string list" where
  "powerWords = [''amazing'', ''incredible'', ''breakthrough'', ''innovative'', ''revolutionary'']"

definition powerWordsHint :: string where
  \<open>powerWordsHint = ''Add power words like "amazing", "breakthrough", or "innovative"''\<close>

text \<open>The third argument of the source, the adapted texts, is not used.\<close>

definition generateOptimizationSuggestions ::
  "string \<Rightarrow> sentiment \<Rightarrow> string \<times> string \<times> string \<Rightarrow> suggestions" where
  "generateOptimizationSuggestions content sentiment platforms =
     (let hasKeywords = testWords powerWords content;
          keywords = [];
          keywords = (if \<not> hasKeywords then keywords @ [powerWordsHint] else keywords);
          keywords = (if \<not> includesStr content ''?''
                      then keywords @ [''Consider adding a question to increase engagement'']
                      else keywords);
          tones = [];
          tones = (if label sentiment = ''neutral''
                   then tones @ [''Consider adding more emotional language to increase engagement'']
                   else tones);
          tones = (if confidence sentiment < 7 / 10
                   then tones @ [''Clarify the tone to make the message more impactful'']
                   else tones)
      in \<lparr>hashtag_recommendations =
            [''Add trending hashtags for better discoverability'',
             ''Use platform-specific hashtags'',
             ''Include branded hashtags if applicable'',
             ''Mix popular and niche hashtags''],
          keyword_suggestions = keywords,
          tone_adjustments = tones,
          timing_recommendations =
            [''Post during peak hours for your audience'',
             ''Consider time zones of your target audience'',
             ''Use scheduling tools for optimal timing'',
             ''Test different posting times to find what works best'']\<rparr>)"

definition questions :: "string list" where
  "questions = [''What do you think?'', ''Have you experienced this?'',
     ''What'' @ [CHR 0x27] @ ''s your take on this?'', ''Do you agree?'']"

text \<open>
  \<open>questions[Math.floor(Math.random() * questions.length)]\<close>, appended to a string: an
  index outside the array gives \<open>undefined\<close>, which the concatenation writes out.
\<close>

definition pickQuestion :: "rat \<Rightarrow> string" where
  "pickQuestion r =
     (let i = \<lfloor>r * of_nat (length questions)\<rfloor>
      in if 0 \<le> i \<and> i < int (length questions) then questions ! nat i else ''undefined'')"

definition optimizeContentForEngagement ::
  "env \<Rightarrow> nat \<Rightarrow> string \<Rightarrow> platform \<Rightarrow> sentiment \<Rightarrow> string \<times> nat" where
  "optimizeContentForEngagement e k content platform sentiment =
     (let (optimizedContent, k) =
            (if \<not> includesStr content ''?'' \<and> platform \<noteq> Newsletter
             then (content @ '' '' @ pickQuestion (mathRandom e k), k + 1)
             else (content, k))
      in case platform of
           Twitter \<Rightarrow>
             (if \<not> includesStr optimizedContent ''#'' then optimizedContent @ '' #Innovation''
              else optimizedContent, k)
         | LinkedIn \<Rightarrow>
             (if \<not> includesStr optimizedContent ''share'' \<and> \<not> includesStr optimizedContent ''comment''
              then optimizedContent @ [newline, newline] @
                   ''Share your thoughts in the comments below!''
              else optimizedContent, k)
         | Newsletter \<Rightarrow>
             (let words = splitChar (CHR '' '') content
              in if length words > 8
                 then take 47 (hd (splitChar (CHR ''.'') content)) @ ''...''
                 else optimizedContent, k))"

section \<open>The two request handlers\<close>

record ContentRequest =
  content :: "string option"
  target_audience :: "string option"
  tone :: "string option"

record error_response =
  error :: string
  status :: nat

record entry =
  content :: string

record basic_social = entry +
  hashtags :: "string list"
  character_count :: nat

record social = basic_social +
  optimized_content :: string

record basic_newsletter = entry +
  subject_line :: string
  word_count :: nat

record full_newsletter = basic_newsletter +
  optimized_subject :: string

record ('s, 'n) platforms =
  twitter :: 's
  linkedin :: 's
  newsletter :: 'n

record metadata =
  processing_time :: int
  content_type :: string
  language :: string
  readability_score :: int

record 'p BasicContent =
  original_content :: string
  sentiment :: sentiment
  platforms :: 'p
  metadata :: metadata

record 'p ProcessedContent = "'p BasicContent" +
  engagement_forecast :: "(forecast, forecast) platforms"
  optimization_suggestions :: suggestions

text \<open>
  The handler of the forecasting route. A request without content, or with a blank one,
  is answered with status 400 before anything is computed. The \<open>catch\<close> branch of the
  source (status 500) answers exceptions; on a request of the declared type no step
  raises one.
\<close>

definition contentRequired :: error_response where
  "contentRequired = \<lparr>error = ''Content is required'', status = 400\<rparr>"

definition rejected :: "ContentRequest \<Rightarrow> bool" where
  "rejected body =
     (case ContentRequest.content body of
        None \<Rightarrow> True
      | Some c \<Rightarrow> c = [] \<or> length (trim c) = 0)"

definition POST ::
  "env \<Rightarrow> ContentRequest \<Rightarrow>
   error_response + ((social, full_newsletter) platforms) ProcessedContent" where
  "POST e body =
     (if rejected body then Inl contentRequired
      else
        let content = the (ContentRequest.content body);
            target_audience = ContentRequest.target_audience body;
            tone = ContentRequest.tone body;
            sentiment = analyzeSentiment content;
            (twitterForecast, k) = predictEngagement e 0 content Twitter sentiment;
            (linkedinForecast, k) = predictEngagement e k content LinkedIn sentiment;
            (newsletterForecast, k) = predictEngagement e k content Newsletter sentiment;
            twitterContent = adaptForPlatform content Twitter target_audience tone;
            linkedinContent = adaptForPlatform content LinkedIn target_audience tone;
            newsletterContent = adaptForPlatform content Newsletter target_audience tone;
            (optimizedTwitter, k) = optimizeContentForEngagement e k twitterContent Twitter sentiment;
            (optimizedLinkedIn, k) = optimizeContentForEngagement e k linkedinContent LinkedIn sentiment;
            (optimizedNewsletterSubject, k) =
               optimizeContentForEngagement e k content Newsletter sentiment;
            optimizationSuggestions =
               generateOptimizationSuggestions content sentiment
                 (twitterContent, linkedinContent, newsletterContent);
            subjectLine = take 50 (hd (splitChar (CHR ''.'') content)) @
                          (if length content > 50 then ''...'' else [])
        in Inr \<lparr>original_content = content,
                sentiment = sentiment,
                platforms =
                  \<lparr>twitter =
                     \<lparr>content = twitterContent,
                      hashtags = generateOptimizedHashtags content Twitter,
                      character_count = length twitterContent,
                      optimized_content = optimizedTwitter\<rparr>,
                   linkedin =
                     \<lparr>content = linkedinContent,
                      hashtags = generateOptimizedHashtags content LinkedIn,
                      character_count = length linkedinContent,
                      optimized_content = optimizedLinkedIn\<rparr>,
                   newsletter =
                     \<lparr>content = newsletterContent,
                      subject_line = subjectLine,
                      word_count = length (splitRuns isSpace newsletterContent),
                      optimized_subject = optimizedNewsletterSubject\<rparr>\<rparr>,
                metadata =
                  \<lparr>processing_time = endTime e - startTime e,
                   content_type = (if length content > 500 then ''long-form'' else ''short-form''),
                   language = ''en'',
                   readability_score = calculateReadability content\<rparr>,
                engagement_forecast =
                  \<lparr>twitter = twitterForecast,
                   linkedin = linkedinForecast,
                   newsletter = newsletterForecast\<rparr>,
                optimization_suggestions = optimizationSuggestions\<rparr>)"

text \<open>The handler of the basic route: no forecast, the hashtags of \<open>extractHashtags\<close>.\<close>

definition POST_basic ::
  "env \<Rightarrow> ContentRequest \<Rightarrow>
   error_response + ((basic_social, basic_newsletter) platforms) BasicContent" where
  "POST_basic e body =
     (if rejected body then Inl contentRequired
      else
        let content = the (ContentRequest.content body);
            target_audience = ContentRequest.target_audience body;
            tone = ContentRequest.tone body;
            sentiment = analyzeSentiment content;
            twitterContent = adaptForPlatform content Twitter target_audience tone;
            linkedinContent = adaptForPlatform content LinkedIn target_audience tone;
            newsletterContent = adaptForPlatform content Newsletter target_audience tone;
            subjectLine = take 50 (hd (splitChar (CHR ''.'') content)) @
                          (if length content > 50 then ''...'' else [])
        in Inr \<lparr>original_content = content,
                sentiment = sentiment,
                platforms =
                  \<lparr>twitter =
                     \<lparr>content = twitterContent,
                      hashtags = extractHashtags content Twitter,
                      character_count = length twitterContent\<rparr>,
                   linkedin =
                     \<lparr>content = linkedinContent,
                      hashtags = extractHashtags content LinkedIn,
                      character_count = length linkedinContent\<rparr>,
                   newsletter =
                     \<lparr>content = newsletterContent,
                      subject_line = subjectLine,
                      word_count = length (splitRuns isSpace newsletterContent)\<rparr>\<rparr>,
                metadata =
                  \<lparr>processing_time = endTime e - startTime e,
                   content_type = (if length content > 500 then ''long-form'' else ''short-form''),
                   language = ''en'',
                   readability_score = calculateReadability content\<rparr>\<rparr>)"

text \<open>
  An environment for the examples: a Wednesday at ten o'clock, every draw \<open>1/32\<close>.
\<close>

definition sampleEnv :: env where
  "sampleEnv = \<lparr>mathRandom = (\<lambda>k. 1 / 32), currentHour = 10, dayOfWeek = 3,
                  startTime = 0, endTime = 2\<rparr>"

definition request :: "string \<Rightarrow> ContentRequest" where
  "request c = \<lparr>ContentRequest.content = Some c, target_audience = None, tone = None\<rparr>"

section \<open>The sentiment policy in the words of the specification\<close>

text \<open>
  The policy of the specification, as a function of the two counts, and the counts as the
  number of tokens found in a lexicon.
\<close>

definition policy :: "nat \<Rightarrow> nat \<Rightarrow> sentiment" where
  "policy p n =
     (if p = 0 \<and> n = 0 then \<lparr>label = ''neutral'', confidence = 5 / 10\<rparr>
      else if p > n then
        \<lparr>label = ''positive'', confidence = min (95 / 100) (6 / 10 + (of_nat p / of_nat (p + n)) * (4 / 10))\<rparr>
      else if n > p then
        \<lparr>label = ''negative'', confidence = min (95 / 100) (6 / 10 + (of_nat n / of_nat (p + n)) * (4 / 10))\<rparr>
      else \<lparr>label = ''neutral'', confidence = 7 / 10\<rparr>)"

definition hits :: "string list \<Rightarrow> string list \<Rightarrow> nat" where
  "hits lexicon ws = length (filter (List.member lexicon) ws)"

text \<open>
  The tokens in the words of the specification: case-normalised, split on
  non-alphanumeric boundaries. An underscore is not alphanumeric.
\<close>

definition isAlphaNum :: "char \<Rightarrow> bool" where
  "isAlphaNum c = (let n = code c in
     (48 \<le> n \<and> n \<le> 57) \<or> (65 \<le> n \<and> n \<le> 90) \<or> (97 \<le> n \<and> n \<le> 122))"

definition specTokens :: "string \<Rightarrow> string list" where
  "specTokens text = splitRuns (\<lambda>c. \<not> isAlphaNum c) (toLowerCase text)"

definition specSentiment :: "string \<Rightarrow> sentiment" where
  "specSentiment text =
     policy (hits positiveWords (specTokens text)) (hits negativeWords (specTokens text))"

section \<open>Properties of the string primitives\<close>

text \<open>
  A split always gives a piece, no piece holds a separator, and a text without a
  separator is its own single piece.
\<close>

lemma splitRuns_not_Nil: "splitRuns sep s \<noteq> []"
  by (induction sep s rule: splitRuns.induct) (auto split: list.splits)

lemma splitRuns_pieces:
  "\<forall>w \<in> set (splitRuns sep s). \<forall>c \<in> set w. \<not> sep c"
proof (induction sep s rule: splitRuns.induct)
  case (1 sep)
  show ?case by simp
next
  case (2 sep c cs)
  show ?case
  proof (cases "sep c")
    case True
    with 2(1) show ?thesis by simp
  next
    case False
    obtain w ws where split: "splitRuns sep cs = w # ws"
      using splitRuns_not_Nil [of sep cs] by (cases "splitRuns sep cs") auto
    from 2(2) [OF False] split have "\<forall>v \<in> set (w # ws). \<forall>u \<in> set v. \<not> sep u"
      by simp
    with False split show ?thesis by auto
  qed
qed


lemma splitChar_not_Nil: "splitChar d s \<noteq> []"
  by (induction s) (auto split: list.splits)

lemma hd_splitChar: "hd (splitChar d s) = takeWhile (\<lambda>u. u \<noteq> d) s"
  by (induction s) (auto split: list.splits simp: splitChar_not_Nil)

lemma splitChar_pieces:
  "\<forall>w \<in> set (splitChar d s). d \<notin> set w"
proof (induction s)
  case Nil
  show ?case by simp
next
  case (Cons c cs)
  obtain w ws where split: "splitChar d cs = w # ws"
    using splitChar_not_Nil [of d cs] by (cases "splitChar d cs") auto
  with Cons show ?case by auto
qed



lemma trim_blank: "length (trim c) = 0 \<longleftrightarrow> (\<forall>u \<in> set c. isSpace u)"
proof
  assume "length (trim c) = 0"
  then have all: "\<forall>x \<in> set (dropWhile isSpace c). isSpace x"
    by (simp add: trim_def dropWhile_eq_Nil_conv)
  have "dropWhile isSpace c = []"
  proof (rule ccontr)
    assume ne: "dropWhile isSpace c \<noteq> []"
    then have "\<not> isSpace (hd (dropWhile isSpace c))"
      by (rule hd_dropWhile)
    moreover from ne have "hd (dropWhile isSpace c) \<in> set (dropWhile isSpace c)"
      by simp
    ultimately show False
      using all by blast
  qed
  then show "\<forall>u \<in> set c. isSpace u"
    by (simp add: dropWhile_eq_Nil_conv)
next
  assume "\<forall>u \<in> set c. isSpace u"
  then have d: "dropWhile isSpace c = []"
    by (simp add: dropWhile_eq_Nil_conv)
  have "trim c = []"
    unfolding trim_def d by simp
  then show "length (trim c) = 0"
    by simp
qed

section \<open>Properties of the sentiment analysis\<close>

lemma fold_countWord:
  "fold countWord ws (p, n) = (p + hits positiveWords ws, n + hits negativeWords ws)"
  by (induction ws arbitrary: p n) (simp_all add: countWord_def hits_def Let_def)

lemma lexiconCounts_hits:
  "lexiconCounts text = (hits positiveWords (tokens text), hits negativeWords (tokens text))"
  by (simp add: lexiconCounts_def fold_countWord)

lemma analyzeSentiment_policy:
  "analyzeSentiment text =
     policy (hits positiveWords (tokens text)) (hits negativeWords (tokens text))"
  by (simp add: analyzeSentiment_def lexiconCounts_hits policy_def)

lemma majority_share:
  fixes p n :: nat
  assumes "n < p"
  shows "(8 :: rat) / 10 < 6 / 10 + (of_nat p / of_nat (p + n)) * (4 / 10)"
proof -
  define x :: rat where "x = of_nat p / of_nat (p + n)"
  have pos: "(0 :: rat) < of_nat (p + n)"
    using assms by simp
  have "(of_nat (p + n) :: rat) < 2 * of_nat p"
    using assms by (simp add: of_nat_add [symmetric] del: of_nat_add)
  then have "1 / 2 < x"
    unfolding x_def using pos by (simp add: pos_less_divide_eq)
  then have "(8 :: rat) / 10 < 6 / 10 + x * (4 / 10)"
    by linarith
  then show ?thesis
    by (simp only: x_def)
qed

lemma capped: "min (95 / 100) x \<le> (95 / 100 :: rat)"
  by (rule min.cobounded1)

lemma policy_label:
  "label (policy p n) \<in> {''positive'', ''negative'', ''neutral''}"
  by (simp add: policy_def)

lemma policy_positive: "label (policy p n) = ''positive'' \<longleftrightarrow> n < p"
  by (auto simp: policy_def)

lemma policy_negative: "label (policy p n) = ''negative'' \<longleftrightarrow> p < n"
  by (auto simp: policy_def)

lemma policy_neutral: "label (policy p n) = ''neutral'' \<longleftrightarrow> p = n"
  by (auto simp: policy_def)

lemma policy_confidence_decided:
  assumes "p \<noteq> n"
  shows "8 / 10 < confidence (policy p n)" and "confidence (policy p n) \<le> 95 / 100"
proof -
  show "8 / 10 < confidence (policy p n)"
  proof (cases "n < p")
    case True
    then show ?thesis
      using majority_share [of n p] by (simp add: policy_def)
  next
    case False
    with assms have "p < n" by simp
    then show ?thesis
      using majority_share [of p n] by (simp add: policy_def add.commute)
  qed
  show "confidence (policy p n) \<le> 95 / 100"
    unfolding policy_def using assms capped by (simp del: min_less_iff_conj)
qed

lemma policy_confidence_neutral:
  "confidence (policy p p) = (if p = 0 then 5 / 10 else 7 / 10)"
  by (simp add: policy_def)

lemma policy_confidence_range:
  "5 / 10 \<le> confidence (policy p n) \<and> confidence (policy p n) \<le> 95 / 100"
proof (cases "p = n")
  case True
  then show ?thesis
    by (simp add: policy_confidence_neutral)
next
  case False
  from policy_confidence_decided [OF False] show ?thesis
    by simp
qed

text \<open>
  C2, as the code has it. The sentiment is the four-case policy on the numbers of
  positive and negative lexicon hits among the tokens of the lower-cased text, where the
  tokens are the pieces between the maximal runs of units other than ASCII letters,
  digits and the underscore: both counts zero gives neutral with 0.5, more positive hits
  give positive with \<open>min(0.95, 0.6 + (positive/(positive+negative)) * 0.4)\<close>, more
  negative hits give the symmetric negative result, equal counts that are not zero give
  neutral with 0.7. The underscore belongs to a token and does not end it.
\<close>

theorem C2_sentiment_policy:
  "analyzeSentiment text =
     policy (hits positiveWords (splitRuns nonWord (toLowerCase text)))
            (hits negativeWords (splitRuns nonWord (toLowerCase text)))"
  using analyzeSentiment_policy by (simp only: tokens_def)

text \<open>
  C2, as the claim words it, fails. With tokens split at every unit that is not
  alphanumeric, the text \<open>good_\<close> has the token \<open>good\<close>, a positive hit; the code keeps
  the token \<open>good_\<close>, which is in no lexicon.
\<close>

theorem C2_underscore_counterexample:
  "analyzeSentiment ''good_'' = \<lparr>label = ''neutral'', confidence = 5 / 10\<rparr> \<and>
   specSentiment ''good_'' = \<lparr>label = ''positive'', confidence = 95 / 100\<rparr>"
  by code_simp

text \<open>
  C8. For every text the confidence of the sentiment lies in the closed interval from
  0.5 to 0.95; it is never 1.0 and never below 0.5.
\<close>

theorem C8_confidence_range:
  "5 / 10 \<le> confidence (analyzeSentiment text) \<and>
   confidence (analyzeSentiment text) \<le> 95 / 100 \<and>
   confidence (analyzeSentiment text) \<noteq> 1"
proof -
  let ?c = "confidence (analyzeSentiment text)"
  have range: "5 / 10 \<le> ?c \<and> ?c \<le> 95 / 100"
    by (simp only: analyzeSentiment_policy policy_confidence_range)
  moreover from range have "?c \<noteq> 1"
    by auto
  ultimately show ?thesis
    by simp
qed

text \<open>
  C9. For every text, a sentiment with the label positive or negative has a confidence
  strictly above 0.8, and a sentiment with the label neutral has the confidence 0.5 or
  0.7; so the confidence never lies in the gap above 0.7 and up to 0.8.
\<close>

theorem C9_confidence_gap:
  "(label (analyzeSentiment text) = ''positive'' \<or> label (analyzeSentiment text) = ''negative''
      \<longrightarrow> 8 / 10 < confidence (analyzeSentiment text)) \<and>
   (label (analyzeSentiment text) = ''neutral''
      \<longrightarrow> confidence (analyzeSentiment text) = 5 / 10 \<or>
          confidence (analyzeSentiment text) = 7 / 10) \<and>
   \<not> (7 / 10 < confidence (analyzeSentiment text) \<and>
      confidence (analyzeSentiment text) \<le> 8 / 10)"
proof -
  define p where "p = hits positiveWords (tokens text)"
  define n where "n = hits negativeWords (tokens text)"
  have eq: "analyzeSentiment text = policy p n"
    by (simp only: analyzeSentiment_policy p_def n_def)
  show ?thesis
  proof (cases "p = n")
    case True
    then show ?thesis
      unfolding eq by (simp add: policy_def)
  next
    case False
    then have neutral: "label (policy p n) \<noteq> ''neutral''"
      by (simp add: policy_neutral)
    from policy_confidence_decided(1) [OF False] neutral show ?thesis
      unfolding eq by simp
  qed
qed

theorem C9_confidence_gap_witness:
  "label (analyzeSentiment ''a great day'') = ''positive'' \<and>
   8 / 10 < confidence (analyzeSentiment ''a great day'') \<and>
   label (analyzeSentiment ''good but bad'') = ''neutral'' \<and>
   (confidence (analyzeSentiment ''good but bad'') = 5 / 10 \<or>
    confidence (analyzeSentiment ''good but bad'') = 7 / 10)"
proof -
  have pos: "label (analyzeSentiment ''a great day'') = ''positive''"
    by code_simp
  have neu: "label (analyzeSentiment ''good but bad'') = ''neutral''"
    by code_simp
  from C9_confidence_gap [of "''a great day''"] C9_confidence_gap [of "''good but bad''"] pos neu
  show ?thesis
    by blast
qed

section \<open>Properties of the readability score\<close>










section \<open>Properties of the adaptation for Twitter\<close>

lemma twitter_cases:
  "adaptForPlatform raw Twitter aud tn =
     (let t = applyTone raw tn in
      if length t > 240 then take 240 t @ ''...''
      else if length t < 200 then t @ '' What do you think?'' else t)"
  by (simp add: adaptForPlatform_def Let_def)

lemma twitter_length:
  "length (adaptForPlatform raw Twitter aud tn) \<le> 243"
  by (simp add: twitter_cases Let_def)

text \<open>
  C6. For every text and optional tone, with \<open>t\<close> the tone-adjusted text: the Twitter
  output is the first 240 units of \<open>t\<close> and the ellipsis whenever \<open>t\<close> is longer than 240;
  it is \<open>t\<close> with the engagement prompt appended exactly when \<open>t\<close> is shorter than 200,
  and \<open>t\<close> itself from 200 to 240; its length never exceeds 240 plus the length of the
  ellipsis, so that an input of 300 units gives at most 244.
\<close>

theorem C6_twitter_adaptation:
  "(length (applyTone raw tn) > 240 \<longrightarrow>
      adaptForPlatform raw Twitter aud tn = take 240 (applyTone raw tn) @ ''...'') \<and>
   (adaptForPlatform raw Twitter aud tn = applyTone raw tn @ '' What do you think?''
      \<longleftrightarrow> length (applyTone raw tn) < 200) \<and>
   (200 \<le> length (applyTone raw tn) \<and> length (applyTone raw tn) \<le> 240 \<longrightarrow>
      adaptForPlatform raw Twitter aud tn = applyTone raw tn) \<and>
   length (adaptForPlatform raw Twitter aud tn) \<le> 240 + length ''...'' \<and>
   (length raw = 300 \<longrightarrow> length (adaptForPlatform raw Twitter aud tn) \<le> 244)"
proof -
  define t where "t = applyTone raw tn"
  define out where "out = adaptForPlatform raw Twitter aud tn"
  have out: "out = (if length t > 240 then take 240 t @ ''...''
                    else if length t < 200 then t @ '' What do you think?'' else t)"
    by (simp add: out_def t_def twitter_cases)
  have long: "length t > 240 \<longrightarrow> out = take 240 t @ ''...''"
    by (simp add: out)
  have prompt: "out = t @ '' What do you think?'' \<longleftrightarrow> length t < 200"
  proof
    assume eq: "out = t @ '' What do you think?''"
    show "length t < 200"
    proof (rule ccontr)
      assume "\<not> length t < 200"
      then have "length out \<le> 243 \<and> (length t \<le> 240 \<longrightarrow> length out = length t) \<and>
                 (length t > 240 \<longrightarrow> length out = 243)"
        by (simp add: out)
      moreover from eq have "length out = length t + 19"
        by simp
      ultimately show False
        by auto
    qed
  next
    assume "length t < 200"
    then show "out = t @ '' What do you think?''"
      by (simp add: out)
  qed
  have middle: "200 \<le> length t \<and> length t \<le> 240 \<longrightarrow> out = t"
    by (simp add: out)
  have bound: "length out \<le> 243"
    by (simp add: out)
  show ?thesis
    using long prompt middle bound unfolding t_def out_def by simp
qed

theorem C6_twitter_adaptation_witness:
  "length (applyTone (replicate 300 (CHR ''a'')) None) > 240 \<and>
   adaptForPlatform (replicate 300 (CHR ''a'')) Twitter None None
     = take 240 (applyTone (replicate 300 (CHR ''a'')) None) @ ''...'' \<and>
   length (adaptForPlatform (replicate 300 (CHR ''a'')) Twitter None None) \<le> 244 \<and>
   adaptForPlatform (replicate 220 (CHR ''a'')) Twitter None (Some ''casual'')
     = applyTone (replicate 220 (CHR ''a'')) (Some ''casual'') \<and>
   adaptForPlatform ''Good news.'' Twitter None (Some ''enthusiastic'')
     = ''Good news! What do you think?''"
proof -
  have l300: "length (replicate 300 (CHR ''a'')) = 300"
    by simp
  have long: "length (applyTone (replicate 300 (CHR ''a'')) None) > 240"
    by (simp add: applyTone_def)
  have len220: "length (applyTone (replicate 220 (CHR ''a'')) (Some ''casual'')) = 220"
    by code_simp
  have tone: "applyTone ''Good news.'' (Some ''enthusiastic'') = ''Good news!''"
    by code_simp
  from C6_twitter_adaptation [of "replicate 300 (CHR ''a'')" None None] l300 long
  have a: "adaptForPlatform (replicate 300 (CHR ''a'')) Twitter None None
             = take 240 (applyTone (replicate 300 (CHR ''a'')) None) @ ''...'' \<and>
           length (adaptForPlatform (replicate 300 (CHR ''a'')) Twitter None None) \<le> 244"
    by blast
  from C6_twitter_adaptation [of "replicate 220 (CHR ''a'')" "Some ''casual''" None] len220
  have b: "adaptForPlatform (replicate 220 (CHR ''a'')) Twitter None (Some ''casual'')
             = applyTone (replicate 220 (CHR ''a'')) (Some ''casual'')"
    by simp
  from C6_twitter_adaptation [of "''Good news.''" "Some ''enthusiastic''" None] tone
  have c: "adaptForPlatform ''Good news.'' Twitter None (Some ''enthusiastic'')
             = ''Good news! What do you think?''"
    by simp
  from long a b c show ?thesis
    by blast
qed

section \<open>Properties of the hashtag functions\<close>

lemma slice0_nonneg: "0 \<le> e \<Longrightarrow> slice0 xs e = take (nat e) xs"
  by (simp add: slice0_def min_def)

lemma keywordTags_length: "length (keywordTags ws) \<le> 4"
  by (simp add: keywordTags_def Let_def)

lemma extractHashtags_length: "length (extractHashtags raw p) \<le> 5"
  by (simp add: extractHashtags_def Let_def slice0_nonneg)

lemma fold_setInsert_distinct:
  "distinct acc \<Longrightarrow> distinct (fold setInsert xs acc)"
  by (induction xs arbitrary: acc) (simp_all add: setInsert_def)

lemma fold_setInsert_set:
  "set (fold setInsert xs acc) = set acc \<union> set xs"
  by (induction xs arbitrary: acc) (auto simp add: setInsert_def)

lemma newSet_distinct: "distinct (newSet xs)"
  by (simp add: newSet_def fold_setInsert_distinct)

lemma newSet_set: "set (newSet xs) = set xs"
  by (simp add: newSet_def fold_setInsert_set)

text \<open>
  What holds of the two strategies: both return at most 5 tags, and the optimised one
  returns no tag twice.
\<close>

lemma hashtags_at_most_five:
  "length (extractHashtags raw p) \<le> 5 \<and> length (generateOptimizedHashtags raw p) \<le> 5"
  by (simp add: extractHashtags_length generateOptimizedHashtags_def Let_def slice0_nonneg)

lemma generateOptimizedHashtags_distinct:
  "distinct (generateOptimizedHashtags raw p)"
  by (simp add: generateOptimizedHashtags_def Let_def slice0_nonneg newSet_distinct)

text \<open>
  C4. The claim asks of both strategies that the list has at most 5 entries and no
  entry twice. \<open>extractHashtags\<close> appends the first tags of the platform to the tags of
  the content without looking for the ones that are there already: the text
  \<open>innovation\<close> gets \<open>#innovation\<close> from its content and again as the second tag of
  Twitter. The basic route returns that list.
\<close>

theorem C4_extractHashtags_duplicate:
  "extractHashtags ''innovation'' Twitter = [''#innovation'', ''#tech'', ''#innovation''] \<and>
   \<not> distinct (extractHashtags ''innovation'' Twitter) \<and>
   (case POST_basic sampleEnv (request ''innovation'') of
      Inl err \<Rightarrow> False
    | Inr r \<Rightarrow> hashtags (twitter (platforms r)) = [''#innovation'', ''#tech'', ''#innovation''])"
  by code_simp

lemma extractHashtags_fill:
  assumes "p \<noteq> Newsletter" and "length (keywordTags (longWords raw)) \<le> 3"
  shows "extractHashtags raw p =
           keywordTags (longWords raw) @
           take (3 - length (keywordTags (longWords raw))) (commonHashtags p)"
    and "length (extractHashtags raw p) = 3"
proof -
  let ?k = "keywordTags (longWords raw)"
  have e: "(0::int) \<le> 3 - int (length ?k)"
    using assms(2) by simp
  have six: "length (commonHashtags p) = 6"
    using assms(1) by (cases p) simp_all
  have n: "nat (3 - int (length ?k)) = 3 - length ?k"
    by simp
  have body: "extractHashtags raw p = take 5 (?k @ take (3 - length ?k) (commonHashtags p))"
    using e by (simp add: extractHashtags_def Let_def slice0_nonneg n)
  have len: "length (?k @ take (3 - length ?k) (commonHashtags p)) = 3"
    using assms(2) six by simp
  show "extractHashtags raw p = ?k @ take (3 - length ?k) (commonHashtags p)"
    using body len by simp
  then show "length (extractHashtags raw p) = 3"
    using len by simp
qed

text \<open>
  C7, as the code has it. In the baseline strategy, for every text and every platform
  other than the newsletter, when the content gives at most 3 tags the first tags of the
  platform are appended to fill the list up to a total of 3, the tags of the content
  first; a text without a trigger word gets the first 3 tags of the platform.
\<close>

theorem C7_fill_to_three:
  assumes "p \<noteq> Newsletter" and "length (keywordTags (longWords raw)) \<le> 3"
  shows "extractHashtags raw p =
           keywordTags (longWords raw) @
           take (3 - length (keywordTags (longWords raw))) (commonHashtags p) \<and>
         length (extractHashtags raw p) = 3 \<and>
         (keywordTags (longWords raw) = [] \<longrightarrow>
            extractHashtags raw p = take 3 (commonHashtags p))"
  using extractHashtags_fill [OF assms] by simp

theorem C7_fill_to_three_witness:
  "keywordTags (longWords ''our business'') = [''#business''] \<and>
   extractHashtags ''our business'' LinkedIn
     = [''#business''] @ take 2 (commonHashtags LinkedIn) \<and>
   keywordTags (longWords ''hello world'') = [] \<and>
   extractHashtags ''hello world'' Twitter = take 3 (commonHashtags Twitter)"
proof -
  have k1: "keywordTags (longWords ''our business'') = [''#business'']"
    by code_simp
  have k2: "keywordTags (longWords ''hello world'') = []"
    by code_simp
  have p1: "LinkedIn \<noteq> Newsletter" and p2: "Twitter \<noteq> Newsletter"
    by simp_all
  have l1: "length (keywordTags (longWords ''our business'')) \<le> 3"
    by (simp add: k1)
  have l2: "length (keywordTags (longWords ''hello world'')) \<le> 3"
    by (simp add: k2)
  from C7_fill_to_three [OF p1 l1] have a:
    "extractHashtags ''our business'' LinkedIn = [''#business''] @ take 2 (commonHashtags LinkedIn)"
    by (simp add: k1)
  from C7_fill_to_three [OF p2 l2] k2 have b:
    "extractHashtags ''hello world'' Twitter = take 3 (commonHashtags Twitter)"
    by blast
  from k1 k2 a b show ?thesis
    by blast
qed

text \<open>
  C7, as the claim words it, fails: a text without a trigger word gets 3 tags of the
  platform, not 5.
\<close>

theorem C7_three_tags_counterexample:
  "keywordTags (longWords ''hello world'') = [] \<and>
   extractHashtags ''hello world'' Twitter = [''#tech'', ''#innovation'', ''#business''] \<and>
   length (extractHashtags ''hello world'' Twitter) = 3"
  by code_simp

section \<open>Properties of the request handlers\<close>

text \<open>A request is rejected exactly when its content is missing or all white space.\<close>

lemma rejected_iff:
  "rejected body \<longleftrightarrow>
     (ContentRequest.content body = None \<or>
      (\<exists>c. ContentRequest.content body = Some c \<and> (\<forall>u \<in> set c. isSpace u)))"
proof (cases "ContentRequest.content body")
  case None
  then show ?thesis
    by (simp add: rejected_def)
next
  case (Some c)
  have "c = [] \<or> length (trim c) = 0 \<longleftrightarrow> (\<forall>u \<in> set c. isSpace u)"
    using trim_blank [of c] by auto
  with Some show ?thesis
    by (simp add: rejected_def)
qed

lemma POST_rejected: "rejected body \<Longrightarrow> POST e body = Inl contentRequired"
  by (simp add: POST_def)

lemma POST_basic_rejected: "rejected body \<Longrightarrow> POST_basic e body = Inl contentRequired"
  by (simp add: POST_basic_def)

lemma POST_accepted:
  assumes "\<not> rejected body" and "ContentRequest.content body = Some raw"
  shows "\<exists>r. POST e body = Inr r \<and>
           original_content r = raw \<and>
           sentiment r = analyzeSentiment raw \<and>
           twitter (engagement_forecast r)
             = fst (predictEngagement e 0 raw Twitter (analyzeSentiment raw)) \<and>
           linkedin (engagement_forecast r)
             = fst (predictEngagement e 3 raw LinkedIn (analyzeSentiment raw)) \<and>
           newsletter (engagement_forecast r)
             = fst (predictEngagement e 6 raw Newsletter (analyzeSentiment raw)) \<and>
           entry.content (twitter (platforms r))
             = adaptForPlatform raw Twitter (target_audience body) (tone body) \<and>
           subject_line (newsletter (platforms r))
             = take 50 (hd (splitChar (CHR ''.'') raw)) @ (if length raw > 50 then ''...'' else [])"
  using assms by (simp add: POST_def Let_def split_beta)

lemma POST_basic_accepted:
  assumes "\<not> rejected body" and "ContentRequest.content body = Some raw"
  shows "\<exists>r. POST_basic e body = Inr r \<and>
           original_content r = raw \<and>
           subject_line (newsletter (platforms r))
             = take 50 (hd (splitChar (CHR ''.'') raw)) @ (if length raw > 50 then ''...'' else [])"
  using assms by (simp add: POST_basic_def Let_def split_beta)

lemma request_accepted: "\<not> (\<forall>u \<in> set c. isSpace u) \<Longrightarrow> \<not> rejected (request c)"
  by (simp add: rejected_iff request_def)

text \<open>
  C3. A request whose content is missing or consists of white space only is answered
  with the error of status 400, a client error, by both handlers; the answer is the
  error alone, so no result, whole or partial, comes out of any analysis.
\<close>

theorem C3_blank_rejected:
  assumes "ContentRequest.content body = None \<or>
           (\<exists>c. ContentRequest.content body = Some c \<and> (\<forall>u \<in> set c. isSpace u))"
  shows "POST e body = Inl contentRequired \<and>
         POST_basic e body = Inl contentRequired \<and>
         status contentRequired = 400 \<and>
         (\<forall>r. POST e body \<noteq> Inr r) \<and> (\<forall>r. POST_basic e body \<noteq> Inr r)"
proof -
  from assms have "rejected body"
    by (simp only: rejected_iff)
  then show ?thesis
    by (simp add: POST_rejected POST_basic_rejected contentRequired_def)
qed

theorem C3_blank_rejected_witness:
  "POST sampleEnv (request ''   '') = Inl contentRequired \<and>
   POST_basic sampleEnv (request ''   '') = Inl contentRequired \<and>
   POST sampleEnv \<lparr>ContentRequest.content = None, target_audience = None, tone = None\<rparr>
     = Inl contentRequired"
proof -
  have blank: "ContentRequest.content (request ''   '') = None \<or>
      (\<exists>c. ContentRequest.content (request ''   '') = Some c \<and> (\<forall>u \<in> set c. isSpace u))"
    by (simp add: request_def isSpace_def code_def)
  have missing:
    "ContentRequest.content
       \<lparr>ContentRequest.content = None, target_audience = None, tone = None\<rparr> = None \<or>
     (\<exists>c. ContentRequest.content
             \<lparr>ContentRequest.content = None, target_audience = None, tone = None\<rparr> = Some c \<and>
          (\<forall>u \<in> set c. isSpace u))"
    by simp
  from C3_blank_rejected [OF blank] C3_blank_rejected [OF missing] show ?thesis
    by blast
qed

text \<open>
  C10. For every accepted request, in both handlers, the subject line of the newsletter
  is the part of the original text in front of its first full stop, cut to its first 50
  units, with \<open>...\<close> appended exactly when the whole original text is longer than 50
  units; its length never exceeds 53.
\<close>

theorem C10_subject_line:
  assumes "ContentRequest.content body = Some raw" and "\<not> rejected body"
  shows "(\<exists>r. POST e body = Inr r \<and>
              subject_line (newsletter (platforms r))
                = take 50 (takeWhile (\<lambda>u. u \<noteq> CHR ''.'') raw) @
                  (if length raw > 50 then ''...'' else [])) \<and>
         (\<exists>r. POST_basic e body = Inr r \<and>
              subject_line (newsletter (platforms r))
                = take 50 (takeWhile (\<lambda>u. u \<noteq> CHR ''.'') raw) @
                  (if length raw > 50 then ''...'' else [])) \<and>
         length (take 50 (takeWhile (\<lambda>u. u \<noteq> CHR ''.'') raw) @
                 (if length raw > 50 then ''...'' else [])) \<le> 53"
proof -
  from POST_accepted [OF assms(2) assms(1), of e]
  have full: "\<exists>r. POST e body = Inr r \<and>
              subject_line (newsletter (platforms r))
                = take 50 (takeWhile (\<lambda>u. u \<noteq> CHR ''.'') raw) @
                  (if length raw > 50 then ''...'' else [])"
    by (auto simp only: hd_splitChar)
  from POST_basic_accepted [OF assms(2) assms(1), of e]
  have basic: "\<exists>r. POST_basic e body = Inr r \<and>
              subject_line (newsletter (platforms r))
                = take 50 (takeWhile (\<lambda>u. u \<noteq> CHR ''.'') raw) @
                  (if length raw > 50 then ''...'' else [])"
    by (auto simp only: hd_splitChar)
  have "length (take 50 (takeWhile (\<lambda>u. u \<noteq> CHR ''.'') raw)) \<le> 50"
    by simp
  then have "length (take 50 (takeWhile (\<lambda>u. u \<noteq> CHR ''.'') raw) @
                (if length raw > 50 then ''...'' else [])) \<le> 53"
    by (simp del: length_take)
  with full basic show ?thesis
    by blast
qed

theorem C10_subject_line_witness:
  "(\<exists>r. POST sampleEnv (request ''Hi. This text goes on for more than fifty units in all.'')
          = Inr r \<and>
        subject_line (newsletter (platforms r)) = ''Hi...'') \<and>
   (\<exists>r. POST_basic sampleEnv (request ''Short text. Second sentence.'') = Inr r \<and>
        subject_line (newsletter (platforms r)) = ''Short text'')"
proof -
  let ?long = "''Hi. This text goes on for more than fifty units in all.''"
  let ?short = "''Short text. Second sentence.''"
  have c1: "ContentRequest.content (request ?long) = Some ?long"
    and c2: "ContentRequest.content (request ?short) = Some ?short"
    by (simp_all add: request_def)
  have n1: "\<not> rejected (request ?long)" and n2: "\<not> rejected (request ?short)"
    by code_simp+
  have s1: "take 50 (takeWhile (\<lambda>u. u \<noteq> CHR ''.'') ?long) @
            (if length ?long > 50 then ''...'' else []) = ''Hi...''"
    by simp
  have s2: "take 50 (takeWhile (\<lambda>u. u \<noteq> CHR ''.'') ?short) @
            (if length ?short > 50 then ''...'' else []) = ''Short text''"
    by simp
  from C10_subject_line [OF c1 n1, of sampleEnv] s1
  have a: "\<exists>r. POST sampleEnv (request ?long) = Inr r \<and>
              subject_line (newsletter (platforms r)) = ''Hi...''"
    by simp
  from C10_subject_line [OF c2 n2, of sampleEnv] s2
  have b: "\<exists>r. POST_basic sampleEnv (request ?short) = Inr r \<and>
              subject_line (newsletter (platforms r)) = ''Short text''"
    by simp
  from a b show ?thesis
    by blast
qed

section \<open>The text behind the forecast\<close>

text \<open>
  C1, as the code has it. For every accepted request and each of the three platforms,
  the forecast in the response is the forecast of the original text of the request: the
  handler calls \<open>predictEngagement\<close> with the submitted content, before it adapts the
  content, so the bonuses for hashtag marker, emoji, question mark and call-to-action and
  the adjustments for length and word count are functions of the submitted text and not
  of the adapted one.
\<close>

theorem C1_forecast_of_submitted_text:
  assumes "ContentRequest.content body = Some raw" and "\<not> rejected body"
  shows "\<exists>r. POST e body = Inr r \<and>
           twitter (engagement_forecast r)
             = fst (predictEngagement e 0 raw Twitter (analyzeSentiment raw)) \<and>
           linkedin (engagement_forecast r)
             = fst (predictEngagement e 3 raw LinkedIn (analyzeSentiment raw)) \<and>
           newsletter (engagement_forecast r)
             = fst (predictEngagement e 6 raw Newsletter (analyzeSentiment raw))"
  using POST_accepted [OF assms(2) assms(1), of e] by blast

lemma sentiment_Hello:
  "analyzeSentiment ''Hello'' = \<lparr>label = ''neutral'', confidence = 5 / 10\<rparr>"
  by code_simp

lemma forecast_Hello:
  "fst (predictEngagement sampleEnv 0 ''Hello'' Twitter
          \<lparr>label = ''neutral'', confidence = 5 / 10\<rparr>)
     = TwitterForecast 116 40 25 50 ''1:00 PM today''"
  "fst (predictEngagement sampleEnv 3 ''Hello'' LinkedIn
          \<lparr>label = ''neutral'', confidence = 5 / 10\<rparr>)
     = LinkedinForecast 90 30 45 50 ''12:00 PM today''"
  "fst (predictEngagement sampleEnv 6 ''Hello'' Newsletter
          \<lparr>label = ''neutral'', confidence = 5 / 10\<rparr>)
     = NewsletterForecast 36 12 60 ''2:00 PM today''"
  by code_simp+

lemma forecast_Hello_adapted:
  "adaptForPlatform ''Hello'' Twitter None None = ''Hello What do you think?''"
  "fst (predictEngagement sampleEnv 0 ''Hello What do you think?'' Twitter
          \<lparr>label = ''neutral'', confidence = 5 / 10\<rparr>)
     = TwitterForecast 143 50 31 62 ''1:00 PM today''"
  by code_simp+

lemma request_Hello:
  "ContentRequest.content (request ''Hello'') = Some ''Hello''"
  "target_audience (request ''Hello'') = None"
  "tone (request ''Hello'') = None"
  "\<not> rejected (request ''Hello'')"
  by (simp_all add: request_def rejected_def trim_def isSpace_def code_def)

theorem C1_forecast_of_submitted_text_witness:
  "\<exists>r. POST sampleEnv (request ''Hello'') = Inr r \<and>
       twitter (engagement_forecast r) = TwitterForecast 116 40 25 50 ''1:00 PM today'' \<and>
       linkedin (engagement_forecast r) = LinkedinForecast 90 30 45 50 ''12:00 PM today'' \<and>
       newsletter (engagement_forecast r) = NewsletterForecast 36 12 60 ''2:00 PM today''"
  using C1_forecast_of_submitted_text [OF request_Hello(1) request_Hello(4), of sampleEnv]
  by (simp only: sentiment_Hello forecast_Hello)

text \<open>
  C1, as the claim words it, fails. For the content \<open>Hello\<close> the adapted text for Twitter
  has the engagement prompt and with it a question mark, which the forecast would reward
  with 12 points; the forecast of the response has the score 50 of the submitted text,
  not the score 62 of the adapted one.
\<close>

theorem C1_adapted_text_counterexample:
  "case POST sampleEnv (request ''Hello'') of
     Inl err \<Rightarrow> False
   | Inr r \<Rightarrow>
       entry.content (twitter (platforms r)) = ''Hello What do you think?'' \<and>
       twitter (engagement_forecast r) = TwitterForecast 116 40 25 50 ''1:00 PM today'' \<and>
       fst (predictEngagement sampleEnv 0 (entry.content (twitter (platforms r))) Twitter
              (sentiment r))
         = TwitterForecast 143 50 31 62 ''1:00 PM today''"
proof -
  from POST_accepted [OF request_Hello(4) request_Hello(1), of sampleEnv]
  obtain r where r: "POST sampleEnv (request ''Hello'') = Inr r"
    and s: "sentiment r = analyzeSentiment ''Hello''"
    and f: "twitter (engagement_forecast r)
              = fst (predictEngagement sampleEnv 0 ''Hello'' Twitter (analyzeSentiment ''Hello''))"
    and c: "entry.content (twitter (platforms r))
              = adaptForPlatform ''Hello'' Twitter (target_audience (request ''Hello''))
                  (tone (request ''Hello''))"
    by blast
  from c have c': "entry.content (twitter (platforms r)) = ''Hello What do you think?''"
    by (simp only: request_Hello forecast_Hello_adapted)
  from f have f': "twitter (engagement_forecast r) = TwitterForecast 116 40 25 50 ''1:00 PM today''"
    by (simp only: sentiment_Hello forecast_Hello)
  from s have s': "sentiment r = \<lparr>label = ''neutral'', confidence = 5 / 10\<rparr>"
    by (simp only: sentiment_Hello)
  have g: "fst (predictEngagement sampleEnv 0 (entry.content (twitter (platforms r))) Twitter
                  (sentiment r))
             = TwitterForecast 143 50 31 62 ''1:00 PM today''"
    unfolding c' s' by (rule forecast_Hello_adapted(2))
  show ?thesis
    unfolding r sum.case using c' f' g by (intro conjI)
qed

end
